theory Spec2Isabelle
  imports Main "HOL-Library.Sublist"
begin

section \<open>Values, errors and the environment of \<open>app.py\<close>\<close>

text \<open>
  Every value that \<open>app.py\<close> reads from a file or from the Steam API comes out of
  \<open>json.load\<close> or \<open>Response.json\<close>, so the Python values of the model are JSON
  documents. \<open>JNull\<close> is Python's \<open>None\<close>. A dict is an association list read
  with \<open>map_of\<close>. A string is the list of the bytes of its UTF-8 encoding, a
  surrogate code point (U+D800 to U+DFFF, which \<open>json.loads\<close> produces from an
  escape such as \<open>\ud800\<close> with no partner) being written like any other code
  point of three bytes: \<open>ED\<close>, then a byte from \<open>A0\<close> to \<open>BF\<close>, then a
  continuation byte. Numbers with a fraction are left out (no function of the program
  computes with one).
\<close>

datatype json =
    JNull
  | JBool bool
  | JInt int
  | JStr string
  | JList "json list"
  | JObj "(string \<times> json) list"

text \<open>The exceptions that the program's statements can raise.\<close>

datatype py_error =
    AttributeError
  | IndexError
  | KeyError
  | TypeError
  | OSError
  | JSONDecodeError
  | ConnectionError
  | HTTPError
  | UnicodeEncodeError

text \<open>
  A path of the file system. \<open>content\<close> is what is stored there: no file, a file
  whose bytes do not decode or do not parse as JSON, or a file whose text parses to a
  document. \<open>readable\<close> says whether \<open>open(path, "r")\<close> succeeds on the existing
  file. \<open>on_write\<close> is what the file system does with \<open>open(path, "w")\<close> and the
  writes that follow: \<open>open\<close> raises and the file stays as it was (\<open>Refused\<close>);
  \<open>open\<close> truncates the file and a later write or the close raises, which leaves
  part of the text (\<open>Breaks\<close>); or every write is stored (\<open>Completes\<close>). A write
  changes neither \<open>readable\<close> nor \<open>on_write\<close>.
\<close>

datatype content = Absent | Corrupt | Holds json

datatype write_outcome = Refused | Breaks | Completes

record json_file =
  content :: content
  readable :: bool
  on_write :: write_outcome

text \<open>
  \<open>with open(path, "r", encoding="utf-8") as f: json.load(f)\<close> under
  \<open>os.path.exists(path)\<close>: the document, or nothing when there is no file, and an
  exception (which both callers catch) when the file cannot be opened or parsed.
\<close>

definition read_json :: "json_file \<Rightarrow> json option" where
  "read_json f =
     (case content f of
        Absent \<Rightarrow> None
      | Corrupt \<Rightarrow> None
      | Holds v \<Rightarrow> if readable f then Some v else None)"

text \<open>
  The text stream of a file opened with \<open>encoding="utf-8"\<close> refuses a surrogate:
  \<open>f.write\<close> raises \<open>UnicodeEncodeError\<close>. \<open>has_surrogate\<close> finds one in the
  bytes of a string; \<open>utf8_encodable\<close> says that no string of a document, key or
  value, holds one.
\<close>

fun has_surrogate :: "string \<Rightarrow> bool" where
  "has_surrogate (a # b # cs) =
     (((of_char a :: nat) = 237 \<and> 160 \<le> (of_char b :: nat) \<and> (of_char b :: nat) \<le> 191)
      \<or> has_surrogate (b # cs))"
| "has_surrogate _ = False"

fun utf8_encodable :: "json \<Rightarrow> bool" where
  "utf8_encodable (JStr s) = (\<not> has_surrogate s)"
| "utf8_encodable (JList xs) = list_all utf8_encodable xs"
| "utf8_encodable (JObj d) =
     list_all (\<lambda>kv. \<not> has_surrogate (fst kv) \<and> utf8_encodable (snd kv)) d"
| "utf8_encodable _ = True"

text \<open>
  What \<open>requests.get\<close> does: it raises (connection error, timeout) or returns a
  response with a status code and a body, which parses as JSON or does not.
\<close>

datatype http_result = Failure | Reply int "json option"

record world =
  apps_cache :: json_file
  history_file :: json_file
  app_list_reply :: http_result
  app_details_reply :: "int \<Rightarrow> http_result"

definition bind_e :: "py_error + 'a \<Rightarrow> ('a \<Rightarrow> py_error + 'b) \<Rightarrow> py_error + 'b" where
  "bind_e m f = (case m of Inl e \<Rightarrow> Inl e | Inr x \<Rightarrow> f x)"

subsection \<open>Python primitives\<close>

text \<open>\<open>d.get(k, dflt)\<close> on a dict, and on any value (only a dict has \<open>get\<close>).\<close>

definition dict_get :: "(string \<times> json) list \<Rightarrow> string \<Rightarrow> json \<Rightarrow> json" where
  "dict_get d k dflt = (case map_of d k of None \<Rightarrow> dflt | Some v \<Rightarrow> v)"

fun py_get :: "json \<Rightarrow> string \<Rightarrow> json \<Rightarrow> py_error + json" where
  "py_get (JObj d) k dflt = Inr (dict_get d k dflt)"
| "py_get _ k dflt = Inl AttributeError"

text \<open>Truth value of a Python object, as \<open>if x\<close>, \<open>not x\<close> and \<open>x or y\<close> test it.\<close>

fun truthy :: "json \<Rightarrow> bool" where
  "truthy JNull = False"
| "truthy (JBool b) = b"
| "truthy (JInt n) = (n \<noteq> 0)"
| "truthy (JStr s) = (s \<noteq> [])"
| "truthy (JList xs) = (xs \<noteq> [])"
| "truthy (JObj d) = (d \<noteq> [])"

text \<open>
  \<open>str.lower\<close> and \<open>str.strip\<close>, on ASCII text: \<open>lower\<close> changes the letters
  \<open>A\<close> to \<open>Z\<close> and \<open>strip\<close> removes the ASCII whitespace characters. Python
  also lower-cases a letter outside ASCII and strips whitespace outside ASCII (such as
  U+00A0), so the two functions are those of the source on strings whose bytes are all
  below 128, which \<open>ascii\<close> says.
\<close>

definition ascii :: "string \<Rightarrow> bool" where
  "ascii s = list_all (\<lambda>c. (of_char c :: nat) < 128) s"

definition lower_char :: "char \<Rightarrow> char" where
  "lower_char c =
     (let n = (of_char c :: nat) in if 65 \<le> n \<and> n \<le> 90 then char_of (n + 32) else c)"

definition lower :: "string \<Rightarrow> string" where
  "lower s = map lower_char s"

definition is_space :: "char \<Rightarrow> bool" where
  "is_space c = (let n = (of_char c :: nat) in (9 \<le> n \<and> n \<le> 13) \<or> (28 \<le> n \<and> n \<le> 32))"

definition strip :: "string \<Rightarrow> string" where
  "strip s = rev (dropWhile is_space (rev (dropWhile is_space s)))"

text \<open>\<open>name.lower()\<close> on a value: only a string has \<open>lower\<close>.\<close>

fun py_lower :: "json \<Rightarrow> py_error + string" where
  "py_lower (JStr s) = Inr (lower s)"
| "py_lower _ = Inl AttributeError"

text \<open>
  \<open>for app in apps\<close>: a list yields its elements, a dict its keys, a string its
  characters; nothing else is iterable.
\<close>

fun py_iter :: "json \<Rightarrow> py_error + json list" where
  "py_iter (JList xs) = Inr xs"
| "py_iter (JObj d) = Inr (map (\<lambda>kv. JStr (fst kv)) d)"
| "py_iter (JStr s) = Inr (map (\<lambda>c. JStr [c]) s)"
| "py_iter _ = Inl TypeError"

text \<open>\<open>x[0]\<close>.\<close>

fun py_first :: "json \<Rightarrow> py_error + json" where
  "py_first (JList []) = Inl IndexError"
| "py_first (JList (x # xs)) = Inr x"
| "py_first (JStr []) = Inl IndexError"
| "py_first (JStr (c # cs)) = Inr (JStr [c])"
| "py_first (JObj d) = Inl KeyError"
| "py_first _ = Inl TypeError"

text \<open>\<open>x[:n]\<close> for a constant \<open>n \<ge> 0\<close>; a dict and a scalar cannot be sliced.\<close>

fun py_slice :: "json \<Rightarrow> nat \<Rightarrow> py_error + json" where
  "py_slice (JList xs) n = Inr (JList (take n xs))"
| "py_slice (JStr s) n = Inr (JStr (take n s))"
| "py_slice _ n = Inl TypeError"

text \<open>\<open>str(appid)\<close> for an integer: its decimal digits, with a sign.\<close>

fun digits :: "nat \<Rightarrow> string" where
  "digits n =
     (if n < 10 then [char_of (48 + n)] else digits (n div 10) @ [char_of (48 + n mod 10)])"

definition str_int :: "int \<Rightarrow> string" where
  "str_int i = (if i < 0 then CHR ''-'' # digits (nat (- i)) else digits (nat i))"

section \<open>Catalog cache\<close>

definition load_apps_cache :: "world \<Rightarrow> json" where
  "load_apps_cache w = (case read_json (apps_cache w) of None \<Rightarrow> JNull | Some v \<Rightarrow> v)"

text \<open>
  \<open>json.dump(data, f)\<close> escapes every character outside ASCII (\<open>ensure_ascii\<close> is
  left at its default), so the text always encodes; the write fails only with the file
  system.
\<close>

definition save_apps_cache :: "json \<Rightarrow> world \<Rightarrow> (py_error + unit) \<times> world" where
  "save_apps_cache data w =
     (case on_write (apps_cache w) of
        Refused \<Rightarrow> (Inl OSError, w)
      | Breaks \<Rightarrow> (Inl OSError, w\<lparr>apps_cache := (apps_cache w)\<lparr>content := Corrupt\<rparr>\<rparr>)
      | Completes \<Rightarrow> (Inr (), w\<lparr>apps_cache := (apps_cache w)\<lparr>content := Holds data\<rparr>\<rparr>))"

text \<open>
  \<open>raise_for_status\<close> raises on a status from 400 to 599. The body is read with
  \<open>r.json().get("applist", {}).get("apps", [])\<close>.
\<close>

definition apps_of_body :: "json \<Rightarrow> py_error + json" where
  "apps_of_body j =
     bind_e (py_get j ''applist'' (JObj [])) (\<lambda>applist. py_get applist ''apps'' (JList []))"

definition fetch_and_cache_apps :: "world \<Rightarrow> (py_error + json) \<times> world" where
  "fetch_and_cache_apps w =
     (case app_list_reply w of
        Failure \<Rightarrow> (Inl ConnectionError, w)
      | Reply status body \<Rightarrow>
          if 400 \<le> status \<and> status < 600 then (Inl HTTPError, w)
          else (case body of
                  None \<Rightarrow> (Inl JSONDecodeError, w)
                | Some j \<Rightarrow>
                    (case apps_of_body j of
                       Inl e \<Rightarrow> (Inl e, w)
                     | Inr data \<Rightarrow>
                         (case save_apps_cache data w of
                            (Inl e, w') \<Rightarrow> (Inl e, w')
                          | (Inr u, w') \<Rightarrow> (Inr data, w')))))"

definition get_all_apps :: "world \<Rightarrow> (py_error + json) \<times> world" where
  "get_all_apps w =
     (let apps = load_apps_cache w
      in if apps = JNull then fetch_and_cache_apps w else (Inr apps, w))"

section \<open>Search\<close>

text \<open>
  The body of the \<open>for\<close> loop of \<open>search_apps\<close>, with \<open>matches\<close> as the
  accumulator: the limit is tested only after an append.
\<close>

fun search_loop :: "string \<Rightarrow> int \<Rightarrow> json list \<Rightarrow> json list \<Rightarrow> py_error + json list" where
  "search_loop q limit [] matches = Inr matches"
| "search_loop q limit (app # apps) matches =
     (case py_get app ''name'' (JStr []) of
        Inl e \<Rightarrow> Inl e
      | Inr name \<Rightarrow>
          (case py_lower name of
             Inl e \<Rightarrow> Inl e
           | Inr lname \<Rightarrow>
               if sublist q lname
               then (if int (length (matches @ [app])) \<ge> limit
                     then Inr (matches @ [app])
                     else search_loop q limit apps (matches @ [app]))
               else search_loop q limit apps matches))"

definition search_apps :: "string \<Rightarrow> int \<Rightarrow> world \<Rightarrow> (py_error + json list) \<times> world" where
  "search_apps query limit w =
     (let q = lower query
      in case get_all_apps w of
           (Inl e, w') \<Rightarrow> (Inl e, w')
         | (Inr apps, w') \<Rightarrow> (bind_e (py_iter apps) (\<lambda>xs. search_loop q limit xs []), w'))"

section \<open>Details\<close>

text \<open>
  The three derived fields of the result, each as the expression of the source:
  a conditional expression tests its condition first, and \<open>a or b\<close> is \<open>a\<close> when
  \<open>a\<close> is true and \<open>b\<close> otherwise.
\<close>

definition price_of :: "json \<Rightarrow> py_error + json" where
  "price_of info =
     bind_e (py_get info ''price_overview'' JNull) (\<lambda>po.
       if truthy po
       then bind_e (py_get info ''price_overview'' (JObj [])) (\<lambda>block.
              py_get block ''final_formatted'' JNull)
       else bind_e (py_get info ''is_free'' JNull) (\<lambda>free.
              Inr (if truthy free then JStr ''Free'' else JStr ''N/A'')))"

definition rating_of :: "json \<Rightarrow> py_error + json" where
  "rating_of info =
     bind_e (py_get info ''metacritic'' (JObj [])) (\<lambda>m. py_get m ''score'' (JStr ''N/A''))"

definition header_image_of :: "json \<Rightarrow> py_error + json" where
  "header_image_of info =
     bind_e (py_get info ''header_image'' JNull) (\<lambda>h.
       if truthy h then Inr h
       else bind_e (py_get info ''screenshots'' (JList [JObj []])) (\<lambda>shots.
            bind_e (py_first shots) (\<lambda>shot.
            bind_e (py_get shot ''path_full'' JNull) (\<lambda>path.
              Inr (if truthy path then path else JStr [])))))"

text \<open>
  \<open>get_app_details\<close> returns the result dict, \<open>JNull\<close> for \<open>None\<close>, or raises.
  It writes nothing. The dict's values are computed in the order of the source.
\<close>

definition get_app_details :: "int \<Rightarrow> world \<Rightarrow> py_error + json" where
  "get_app_details appid w =
     (case app_details_reply w appid of
        Failure \<Rightarrow> Inl ConnectionError
      | Reply status body \<Rightarrow>
          if status \<noteq> 200 then Inr JNull
          else (case body of
                  None \<Rightarrow> Inl JSONDecodeError
                | Some j \<Rightarrow>
                    bind_e (py_get j (str_int appid) (JObj [])) (\<lambda>data.
                    bind_e (py_get data ''success'' JNull) (\<lambda>success.
                      if \<not> truthy success then Inr JNull
                      else
                        bind_e (py_get data ''data'' (JObj [])) (\<lambda>info.
                        bind_e (py_get info ''name'' (JStr ''Unknown'')) (\<lambda>name.
                        bind_e (py_get info ''short_description''
                                  (JStr ''No description available.'')) (\<lambda>description.
                        bind_e (py_get info ''is_free'' (JBool False)) (\<lambda>is_free.
                        bind_e (price_of info) (\<lambda>price.
                        bind_e (rating_of info) (\<lambda>rating.
                        bind_e (header_image_of info) (\<lambda>header_image.
                          Inr (JObj
                            [(''appid'', JInt appid),
                             (''name'', name),
                             (''description'', description),
                             (''is_free'', is_free),
                             (''price'', price),
                             (''rating'', rating),
                             (''header_image'', header_image),
                             (''steam_url'',
                                JStr (''https://store.steampowered.com/app/'' @ str_int appid))
                            ]))))))))))))"

section \<open>History\<close>

text \<open>
  Only the read of the file is inside the \<open>try\<close>. \<open>history.insert\<close> on a
  document that is not a list raises before the file is opened for writing. Then
  \<open>open(path, "w")\<close> truncates the file, and \<open>json.dump\<close> with
  \<open>ensure_ascii=False\<close> passes every character to the stream as it is: on a
  surrogate the stream raises \<open>UnicodeEncodeError\<close> in the middle of the text, and
  what is left in the file does not parse.
\<close>

definition append_history :: "json \<Rightarrow> world \<Rightarrow> (py_error + unit) \<times> world" where
  "append_history entry w =
     (let f = history_file w;
          history = (case read_json f of None \<Rightarrow> JList [] | Some v \<Rightarrow> v)
      in case history of
           JList xs \<Rightarrow>
             (let kept = JList (take 100 (entry # xs))
              in case on_write f of
                   Refused \<Rightarrow> (Inl OSError, w)
                 | Breaks \<Rightarrow> (Inl OSError, w\<lparr>history_file := f\<lparr>content := Corrupt\<rparr>\<rparr>)
                 | Completes \<Rightarrow>
                     if utf8_encodable kept
                     then (Inr (), w\<lparr>history_file := f\<lparr>content := Holds kept\<rparr>\<rparr>)
                     else (Inl UnicodeEncodeError,
                           w\<lparr>history_file := f\<lparr>content := Corrupt\<rparr>\<rparr>))
         | _ \<Rightarrow> (Inl AttributeError, w))"

definition load_history :: "world \<Rightarrow> json" where
  "load_history w = (case read_json (history_file w) of None \<Rightarrow> JList [] | Some v \<Rightarrow> v)"

section \<open>Routes\<close>

text \<open>
  A handler's answer is the arguments it gives to \<open>render_template\<close>, or a text with
  a status code. \<open>now\<close> is \<open>datetime.datetime.utcnow().isoformat()\<close>. The error
  of the index page is \<open>str(e)\<close> of a caught exception or the fixed prompt.
  The handler \<open>history\<close> of the source is \<open>history_route\<close> here, \<open>history\<close>
  being the template argument of the index page; \<open>index_post\<close> is the POST branch
  of \<open>index\<close>.
\<close>

datatype http_method = GET | POST

record page =
  results :: "json list option"
  query :: string
  error :: "(py_error + string) option"
  history :: json

datatype response =
    Plain string int
  | Caught py_error int
  | Index_page page
  | Details_page json
  | History_page json

definition index_post ::
  "string option \<Rightarrow> string \<Rightarrow> world \<Rightarrow>
     (json list option \<times> string \<times> (py_error + string) option) \<times> world" where
  "index_post game_name now w =
     (let query = strip (case game_name of None \<Rightarrow> [] | Some s \<Rightarrow> s)
      in if query \<noteq> []
         then (case search_apps query 15 w of
                 (Inl e, w1) \<Rightarrow> ((None, query, Some (Inl e)), w1)
               | (Inr found, w1) \<Rightarrow>
                   (case append_history
                           (JObj [(''timestamp'', JStr (now @ ''Z'')),
                                  (''type'', JStr ''search''),
                                  (''query'', JStr query),
                                  (''result_count'', JInt (int (length found)))]) w1 of
                      (Inl e, w2) \<Rightarrow> ((Some found, query, Some (Inl e)), w2)
                    | (Inr u, w2) \<Rightarrow> ((Some found, query, None), w2)))
         else ((None, query, Some (Inr ''Please enter a game name.'')), w))"

definition index :: "http_method \<Rightarrow> string option \<Rightarrow> string \<Rightarrow> world \<Rightarrow>
                       (py_error + response) \<times> world" where
  "index method game_name now w =
     (case (if method = POST then index_post game_name now w else ((None, [], None), w)) of
        ((res, q, err), w') \<Rightarrow>
          (case py_slice (load_history w') 20 of
             Inl e \<Rightarrow> (Inl e, w')
           | Inr h \<Rightarrow>
               (Inr (Index_page \<lparr>results = res, query = q, error = err, history = h\<rparr>), w')))"

definition select :: "int \<Rightarrow> string \<Rightarrow> world \<Rightarrow> (py_error + response) \<times> world" where
  "select appid now w =
     (case get_app_details appid w of
        Inl e \<Rightarrow> (Inl e, w)
      | Inr details \<Rightarrow>
          if details = JNull then (Inr (Plain ''Could not fetch details for that app.'' 500), w)
          else (case py_get details ''name'' JNull of
                  Inl e \<Rightarrow> (Inl e, w)
                | Inr name \<Rightarrow>
                    (case append_history
                            (JObj [(''timestamp'', JStr (now @ ''Z'')),
                                   (''type'', JStr ''select''),
                                   (''appid'', JInt appid),
                                   (''name'', name)]) w of
                       (Inl e, w') \<Rightarrow> (Inl e, w')
                     | (Inr u, w') \<Rightarrow> (Inr (Details_page details), w'))))"

definition history_route :: "world \<Rightarrow> py_error + response" where
  "history_route w = bind_e (py_slice (load_history w) 100) (\<lambda>h. Inr (History_page h))"

definition refresh_cache :: "world \<Rightarrow> response \<times> world" where
  "refresh_cache w =
     (case fetch_and_cache_apps w of
        (Inl e, w') \<Rightarrow> (Caught e 500, w')
      | (Inr data, w') \<Rightarrow> (Plain ''Apps cache refreshed.'' 200, w'))"

section \<open>Vocabulary of the properties\<close>

text \<open>
  A catalog entry as the listing endpoint and the cache file give it, the name that the
  search loop lower-cases (defined when the element is a dict whose \<open>name\<close>, if any,
  is a string), and the match test of the loop.
\<close>

definition catalog_entry :: "int \<Rightarrow> string \<Rightarrow> json" where
  "catalog_entry aid nm = JObj [(''appid'', JInt aid), (''name'', JStr nm)]"

definition entry_name :: "json \<Rightarrow> string option" where
  "entry_name app =
     (case app of
        JObj d \<Rightarrow> (case dict_get d ''name'' (JStr []) of JStr s \<Rightarrow> Some s | _ \<Rightarrow> None)
      | _ \<Rightarrow> None)"

definition name_matches :: "string \<Rightarrow> json \<Rightarrow> bool" where
  "name_matches q app =
     (case entry_name app of Some s \<Rightarrow> sublist (lower q) (lower s) | None \<Rightarrow> False)"

definition well_formed_catalog :: "json list \<Rightarrow> bool" where
  "well_formed_catalog c = list_all (\<lambda>app. entry_name app \<noteq> None) c"

definition ascii_catalog :: "json list \<Rightarrow> bool" where
  "ascii_catalog c =
     list_all (\<lambda>app. case entry_name app of Some s \<Rightarrow> ascii s | None \<Rightarrow> True) c"

text \<open>
  The states of a history file from which \<open>append_history\<close> reaches its write: the
  file is absent, cannot be opened for reading, does not parse, or parses to a JSON
  array; \<open>stored_history\<close> is the list it then starts from.
\<close>

definition history_state_ok :: "world \<Rightarrow> bool" where
  "history_state_ok w =
     (case read_json (history_file w) of
        Some v \<Rightarrow> (case v of JList xs \<Rightarrow> True | _ \<Rightarrow> False)
      | None \<Rightarrow> True)"

definition stored_history :: "world \<Rightarrow> json list" where
  "stored_history w =
     (case read_json (history_file w) of
        Some v \<Rightarrow> (case v of JList xs \<Rightarrow> xs | _ \<Rightarrow> [])
      | None \<Rightarrow> [])"

definition corrupt_history :: "world \<Rightarrow> world" where
  "corrupt_history w = w\<lparr>history_file := (history_file w)\<lparr>content := Corrupt\<rparr>\<rparr>"

definition set_history :: "json list \<Rightarrow> world \<Rightarrow> world" where
  "set_history h w = w\<lparr>history_file := (history_file w)\<lparr>content := Holds (JList h)\<rparr>\<rparr>"

definition set_cache :: "json \<Rightarrow> world \<Rightarrow> world" where
  "set_cache d w = w\<lparr>apps_cache := (apps_cache w)\<lparr>content := Holds d\<rparr>\<rparr>"

text \<open>Successive calls of \<open>append_history\<close>, oldest entry first; the first raise ends them.\<close>

fun append_all :: "json list \<Rightarrow> world \<Rightarrow> (py_error + unit) \<times> world" where
  "append_all [] w = (Inr (), w)"
| "append_all (e # es) w =
     (case append_history e w of
        (Inl err, w') \<Rightarrow> (Inl err, w')
      | (Inr u, w') \<Rightarrow> append_all es w')"

text \<open>
  The price that the specification derives from the \<open>data\<close> dict of a successful
  response: the block's \<open>final_formatted\<close> when \<open>price_overview\<close> is a non-empty
  block, else \<open>Free\<close> or \<open>N/A\<close> by \<open>is_free\<close>.
\<close>

definition free_or_na :: "(string \<times> json) list \<Rightarrow> json" where
  "free_or_na info = (if truthy (dict_get info ''is_free'' JNull) then JStr ''Free'' else JStr ''N/A'')"

definition spec_price :: "(string \<times> json) list \<Rightarrow> json" where
  "spec_price info =
     (case dict_get info ''price_overview'' JNull of
        JObj block \<Rightarrow>
          if block \<noteq> [] then dict_get block ''final_formatted'' JNull else free_or_na info
      | _ \<Rightarrow> free_or_na info)"

subsection \<open>Concrete worlds\<close>

definition demo_catalog :: "json list" where
  "demo_catalog =
     [catalog_entry 1 ''Half-Life'', catalog_entry 2 ''Half-Life 2'', catalog_entry 3 ''Portal'']"

definition details_body :: "(string \<times> json) list \<Rightarrow> json" where
  "details_body info =
     JObj [(''570'', JObj [(''success'', JBool True), (''data'', JObj info)])]"

definition demo_world :: world where
  "demo_world =
     \<lparr>apps_cache = \<lparr>content = Holds (JList demo_catalog), readable = True, on_write = Completes\<rparr>,
      history_file = \<lparr>content = Absent, readable = True, on_write = Completes\<rparr>,
      app_list_reply = Failure,
      app_details_reply = (\<lambda>i. Failure)\<rparr>"

definition details_world :: "(string \<times> json) list \<Rightarrow> world" where
  "details_world info =
     demo_world\<lparr>app_details_reply := (\<lambda>i. Reply 200 (Some (details_body info)))\<rparr>"

definition fresh_world :: world where
  "fresh_world =
     \<lparr>apps_cache = \<lparr>content = Corrupt, readable = True, on_write = Completes\<rparr>,
      history_file = \<lparr>content = Absent, readable = True, on_write = Completes\<rparr>,
      app_list_reply =
        Reply 200 (Some (JObj [(''applist'', JObj [(''apps'', JList demo_catalog)])])),
      app_details_reply = (\<lambda>i. Failure)\<rparr>"

definition numbered_event :: "nat \<Rightarrow> json" where
  "numbered_event n = JObj [(''type'', JStr ''search''), (''result_count'', JInt (int n))]"

definition events_upto :: "nat \<Rightarrow> json list" where
  "events_upto n = map numbered_event [0..<n]"

text \<open>
  A history file that holds a given document; the code point U+D800 as a string; the
  \<open>data\<close> dict of a details reply whose \<open>name\<close> is \<open>"\ud800"\<close>.
\<close>

definition history_world :: "json \<Rightarrow> world \<Rightarrow> world" where
  "history_world doc w =
     w\<lparr>history_file := \<lparr>content = Holds doc, readable = True, on_write = Completes\<rparr>\<rparr>"

definition lone_surrogate :: string where
  "lone_surrogate = [char_of (237 :: nat), char_of (160 :: nat), char_of (128 :: nat)]"

definition surrogate_info :: "(string \<times> json) list" where
  "surrogate_info = [(''name'', JStr lone_surrogate), (''is_free'', JBool True)]"

definition unreadable_world :: world where
  "unreadable_world =
     demo_world\<lparr>history_file :=
       \<lparr>content = Holds (JList (events_upto 3)), readable = False, on_write = Completes\<rparr>\<rparr>"

definition garbled_world :: world where
  "garbled_world = demo_world\<lparr>history_file := \<lparr>content = Corrupt, readable = True, on_write = Completes\<rparr>\<rparr>"

definition free_info :: "(string \<times> json) list" where
  "free_info = [(''name'', JStr ''Dota 2''), (''is_free'', JBool True)]"

definition priced_info :: "(string \<times> json) list" where
  "priced_info =
     [(''name'', JStr ''Portal''), (''is_free'', JBool False),
      (''price_overview'', JObj [(''final'', JInt 999), (''final_formatted'', JStr ''$9.99'')])]"

definition no_shots_info :: "(string \<times> json) list" where
  "no_shots_info = [(''name'', JStr ''Dota 2''), (''is_free'', JBool True), (''screenshots'', JList [])]"


section \<open>History: writing\<close>

lemma set_history_facts [simp]:
  "history_state_ok (set_history h w)"
  "readable (history_file (set_history h w)) = readable (history_file w)"
  "on_write (history_file (set_history h w)) = on_write (history_file w)"
  "set_history h (set_history h' w) = set_history h w"
  "content (history_file (set_history h w)) = Holds (JList h)"
  by (simp_all add: set_history_def history_state_ok_def read_json_def)

lemma stored_history_set_history [simp]:
  "readable (history_file w) \<Longrightarrow> stored_history (set_history h w) = h"
  by (simp add: set_history_def stored_history_def read_json_def)

lemma take_append_take: "take n (xs @ take n ys) = take n (xs @ ys)"
  by (simp add: min_def)

lemma list_all_take: "list_all P xs \<Longrightarrow> list_all P (take n xs)"
  by (auto simp: list_all_iff dest: in_set_takeD)

text \<open>
  When \<open>append_history\<close> returns, and what it has then written: the file was in one
  of the states of \<open>history_state_ok\<close>, every write was stored, the list to write had
  no surrogate, and the file holds the new entry followed by the previous list, cut at
  100 entries.
\<close>

lemma append_history_returns_iff:
  "append_history e w = (Inr (), w') \<longleftrightarrow>
     history_state_ok w \<and> on_write (history_file w) = Completes
     \<and> utf8_encodable (JList (take 100 (e # stored_history w)))
     \<and> w' = set_history (take 100 (e # stored_history w)) w"
proof (cases "read_json (history_file w)")
  case None
  then show ?thesis
    by (cases "on_write (history_file w)")
       (auto simp: append_history_def history_state_ok_def stored_history_def set_history_def
                   Let_def)
next
  case (Some v)
  then show ?thesis
    by (cases v; cases "on_write (history_file w)")
       (auto simp: append_history_def history_state_ok_def stored_history_def set_history_def
                   Let_def)
qed

lemma append_history_ok:
  assumes "history_state_ok w" "on_write (history_file w) = Completes"
    "utf8_encodable e" "list_all utf8_encodable (stored_history w)"
  shows "append_history e w = (Inr (), set_history (take 100 (e # stored_history w)) w)"
proof -
  have "list_all utf8_encodable (take 100 (e # stored_history w))"
    using assms(3,4) by (intro list_all_take) simp
  then show ?thesis using assms(1,2) by (simp add: append_history_returns_iff)
qed

text \<open>The ways in which \<open>append_history\<close> raises, and what each leaves in the file.\<close>

lemma append_history_not_a_list:
  assumes "read_json (history_file w) = Some v" "\<forall>xs. v \<noteq> JList xs"
  shows "append_history e w = (Inl AttributeError, w)"
  using assms by (cases v) (auto simp: append_history_def)

lemma append_history_refused:
  assumes "history_state_ok w" "on_write (history_file w) = Refused"
  shows "append_history e w = (Inl OSError, w)"
  using assms
  by (cases "read_json (history_file w)")
     (auto simp: append_history_def history_state_ok_def Let_def split: json.splits)

lemma append_history_breaks:
  assumes "history_state_ok w" "on_write (history_file w) = Breaks"
  shows "append_history e w = (Inl OSError, corrupt_history w)"
  using assms
  by (cases "read_json (history_file w)")
     (auto simp: append_history_def history_state_ok_def corrupt_history_def Let_def
           split: json.splits)

lemma append_history_surrogate:
  assumes "history_state_ok w" "on_write (history_file w) = Completes"
    "\<not> utf8_encodable (JList (take 100 (e # stored_history w)))"
  shows "append_history e w = (Inl UnicodeEncodeError, corrupt_history w)"
  using assms
  by (cases "read_json (history_file w)")
     (auto simp: append_history_def history_state_ok_def stored_history_def
                 corrupt_history_def Let_def
           split: json.splits)

text \<open>Runs of appends on a file that can be read back.\<close>

lemma append_all_set_history:
  assumes "readable (history_file w)" "on_write (history_file w) = Completes"
    "list_all utf8_encodable es" "list_all utf8_encodable h" "length h \<le> 100"
  shows "append_all es (set_history h w) = (Inr (), set_history (take 100 (rev es @ h)) w)"
  using assms
proof (induction es arbitrary: h)
  case Nil
  then show ?case by simp
next
  case (Cons e es)
  have step: "append_history e (set_history h w) = (Inr (), set_history (take 100 (e # h)) w)"
    using Cons.prems by (simp add: append_history_ok)
  have enc: "list_all utf8_encodable (take 100 (e # h))"
    using Cons.prems by (intro list_all_take) simp
  have "append_all es (set_history (take 100 (e # h)) w)
          = (Inr (), set_history (take 100 (rev es @ take 100 (e # h))) w)"
    using Cons.prems enc by (intro Cons.IH) simp_all
  moreover have "take 100 (rev es @ take 100 (e # h)) = take 100 (rev es @ e # h)"
    by (rule take_append_take)
  ultimately show ?case using step by simp
qed

lemma append_all_ok:
  assumes "history_state_ok w" "readable (history_file w)"
    "on_write (history_file w) = Completes"
    "list_all utf8_encodable es" "list_all utf8_encodable (stored_history w)" "es \<noteq> []"
  shows "append_all es w = (Inr (), set_history (take 100 (rev es @ stored_history w)) w)"
proof (cases es)
  case Nil
  with assms show ?thesis by simp
next
  case (Cons e es')
  have enc: "list_all utf8_encodable (take 100 (e # stored_history w))"
    using assms Cons by (intro list_all_take) simp
  have "append_all es' (set_history (take 100 (e # stored_history w)) w)
      = (Inr (), set_history (take 100 (rev es' @ take 100 (e # stored_history w))) w)"
    using assms Cons enc by (intro append_all_set_history) simp_all
  moreover have "take 100 (rev es' @ take 100 (e # stored_history w))
                  = take 100 (rev es' @ e # stored_history w)"
    by (rule take_append_take)
  ultimately show ?thesis using Cons assms by (simp add: append_history_ok)
qed

lemma load_history_stored:
  "history_state_ok w \<Longrightarrow> load_history w = JList (stored_history w)"
  by (auto simp: history_state_ok_def load_history_def stored_history_def
           split: option.splits json.splits)

lemma append_all_returns:
  assumes "append_all es w = (Inr (), w')" "readable (history_file w)"
    "history_state_ok w" "length (stored_history w) \<le> 100"
  shows "stored_history w' = take 100 (rev es @ stored_history w) \<and> history_state_ok w'"
  using assms
proof (induction es arbitrary: w)
  case Nil
  then show ?case by simp
next
  case (Cons e es)
  let ?w1 = "set_history (take 100 (e # stored_history w)) w"
  obtain r w1 where s: "append_history e w = (r, w1)" by (cases "append_history e w")
  with Cons.prems(1) obtain u where "r = Inr u" by (cases r) auto
  with s have s': "append_history e w = (Inr (), w1)" by simp
  then have w1: "w1 = ?w1" by (simp add: append_history_returns_iff)
  from Cons.prems(1) s' have run: "append_all es w1 = (Inr (), w')" by simp
  have "stored_history w' = take 100 (rev es @ stored_history ?w1) \<and> history_state_ok w'"
    using run w1 Cons.prems(2) by (intro Cons.IH) simp_all
  moreover have "take 100 (rev es @ take 100 (e # stored_history w))
                   = take 100 (rev es @ e # stored_history w)"
    by (rule take_append_take)
  ultimately show ?case using Cons.prems(2) by simp
qed

lemma events_encodable: "list_all utf8_encodable (events_upto n)"
  by (simp add: events_upto_def numbered_event_def list_all_iff)

lemma demo_world_history [simp]:
  "history_state_ok demo_world" "stored_history demo_world = []"
  "readable (history_file demo_world)" "on_write (history_file demo_world) = Completes"
  by (simp_all add: demo_world_def history_state_ok_def stored_history_def read_json_def)

text \<open>
  The bound of 100 entries, where the write goes through. After more than 100
  successive appends that start from an empty or absent history that can be read back,
  the persisted list has exactly 100 entries, its first is the most recent append, and
  the newest-first sequence of all appends is the persisted list followed by the dropped
  entries, the first of which is the 101st-from-newest.
\<close>

lemma append_history_written_list:
  assumes "append_history e w = (Inr (), w')"
  shows "\<exists>kept. w' = set_history kept w
           \<and> length kept = min (length (stored_history w) + 1) 100
           \<and> kept = e # take (length kept - 1) (stored_history w)"
proof -
  let ?kept = "take 100 (e # stored_history w)"
  have "w' = set_history ?kept w" using assms by (simp add: append_history_returns_iff)
  moreover have "length ?kept = min (length (stored_history w) + 1) 100" by simp
  moreover have "?kept = e # take (length ?kept - 1) (stored_history w)"
    by (simp add: min_def)
  ultimately show ?thesis by blast
qed

lemma append_all_drops_oldest:
  assumes "history_state_ok w" "stored_history w = []" "readable (history_file w)"
    "on_write (history_file w) = Completes" "list_all utf8_encodable es" "100 < length es"
  shows "\<exists>kept dropped. append_all es w = (Inr (), set_history kept w)
           \<and> length kept = 100 \<and> hd kept = last es
           \<and> rev es = kept @ dropped \<and> dropped \<noteq> [] \<and> hd dropped = rev es ! 100"
proof -
  from assms(6) have ne: "es \<noteq> []" by auto
  let ?kept = "take 100 (rev es)" and ?dropped = "drop 100 (rev es)"
  have run: "append_all es w = (Inr (), set_history ?kept w)"
    using assms ne append_all_ok[of w es] by simp
  have len: "length ?kept = 100" using assms(6) by simp
  have hd1: "hd ?kept = last es" using assms(6) ne by (simp add: hd_rev)
  have dne: "?dropped \<noteq> []" using assms(6) by simp
  have hd2: "hd ?dropped = rev es ! 100" using assms(6) by (simp add: hd_drop_conv_nth)
  show ?thesis
    using run len hd1 dne hd2 by (intro exI[of _ ?kept] exI[of _ ?dropped]) simp
qed

text \<open>
  Claim C2, at an entry that holds a surrogate. The claim gives, for every entry and
  every state of the file, a persisted history that starts with the entry. The details
  endpoint answers \<open>{"570": {"success": true, "data": {"name": "\ud800", "is_free":
  true}}}\<close> and the history file holds three entries: \<open>get_app_details\<close> returns a
  result, \<open>select\<close> passes the name to \<open>append_history\<close>, the file is truncated,
  the write raises \<open>UnicodeEncodeError\<close> out of the handler, and the history that
  was persisted is lost: the file no longer parses, and \<open>load_history\<close> gives the
  empty list. (Where the write goes through, the bound holds:
  \<open>append_history_returns_iff\<close>, \<open>append_history_written_list\<close>,
  \<open>append_all_drops_oldest\<close>.)
\<close>

theorem append_history_surrogate_entry:
  "load_history (history_world (JList (events_upto 3)) (details_world surrogate_info))
      = JList (events_upto 3)
   \<and> fst (select 570 ''2024-05-01T12:00:00''
             (history_world (JList (events_upto 3)) (details_world surrogate_info)))
        = Inl UnicodeEncodeError
   \<and> content (history_file (snd (select 570 ''2024-05-01T12:00:00''
             (history_world (JList (events_upto 3)) (details_world surrogate_info)))))
        = Corrupt
   \<and> load_history (snd (select 570 ''2024-05-01T12:00:00''
             (history_world (JList (events_upto 3)) (details_world surrogate_info))))
        = JList []
   \<and> fst (append_history (JObj [(''type'', JStr ''select''), (''name'', JStr lone_surrogate)])
             (history_world (JList (events_upto 3)) demo_world))
        = Inl UnicodeEncodeError
   \<and> load_history (snd (append_history
             (JObj [(''type'', JStr ''select''), (''name'', JStr lone_surrogate)])
             (history_world (JList (events_upto 3)) demo_world)))
        = JList []"
  by code_simp

text \<open>
  Claim C10, at a previous content that is not an array. The claim gives the written
  list for every previous content of the file. On a file that holds the well-formed
  document \<open>{"events": []}\<close> the read succeeds, \<open>history.insert\<close> raises
  \<open>AttributeError\<close> outside the \<open>try\<close>, and nothing is written: the file holds
  the same document after the call, and no later call can add an entry. On a file that
  holds the array \<open>["\ud800"]\<close> the list to write has two entries, the file is
  truncated and the write raises \<open>UnicodeEncodeError\<close>. (For a previous content
  that is absent, unreadable, unparsable or an array, and a write that goes through, the
  written list is as the claim says, a previous list of more than 100 entries included:
  \<open>append_history_written_list\<close>.)
\<close>

theorem append_history_non_array_content:
  "fst (append_history (numbered_event 7)
          (history_world (JObj [(''events'', JList [])]) demo_world))
      = Inl AttributeError
   \<and> content (history_file (snd (append_history (numbered_event 7)
          (history_world (JObj [(''events'', JList [])]) demo_world))))
      = Holds (JObj [(''events'', JList [])])
   \<and> fst (append_history (numbered_event 7)
          (history_world (JList [JStr lone_surrogate]) demo_world))
      = Inl UnicodeEncodeError
   \<and> content (history_file (snd (append_history (numbered_event 7)
          (history_world (JList [JStr lone_surrogate]) demo_world))))
      = Corrupt"
  by code_simp

section \<open>History: reading\<close>

text \<open>
  Claim C8. \<open>load_history\<close> returns the empty list, and does not raise, when the
  history file is absent, does not parse, or cannot be opened for reading; otherwise
  it returns the persisted document as it is. That document is ordered newest-first:
  whenever \<open>append_history e\<close> has returned on a file that can be read back, it is
  \<open>e\<close> followed by the earlier entries, and whenever a run of appends has returned,
  it lists the appended entries in reverse order of their appends, before the earlier
  ones, cut at 100 entries.
\<close>

theorem load_history_fails_open:
  "((content (history_file w) = Absent \<or> content (history_file w) = Corrupt
       \<or> \<not> readable (history_file w)) \<longrightarrow> load_history w = JList [])
   \<and> (content (history_file w) = Holds v \<and> readable (history_file w) \<longrightarrow>
        load_history w = v)
   \<and> (append_history e w = (Inr (), w') \<and> readable (history_file w) \<longrightarrow>
        load_history w' = JList (e # take 99 (stored_history w)))
   \<and> (append_all es w = (Inr (), w'') \<and> readable (history_file w)
        \<and> history_state_ok w \<and> length (stored_history w) \<le> 100 \<longrightarrow>
        load_history w'' = JList (take 100 (rev es @ stored_history w)))"
proof (intro conjI impI)
  assume "content (history_file w) = Absent \<or> content (history_file w) = Corrupt
       \<or> \<not> readable (history_file w)"
  then show "load_history w = JList []"
    by (auto simp: load_history_def read_json_def split: content.splits)
next
  assume "content (history_file w) = Holds v \<and> readable (history_file w)"
  then show "load_history w = v" by (simp add: load_history_def read_json_def)
next
  assume a: "append_history e w = (Inr (), w') \<and> readable (history_file w)"
  then have "w' = set_history (take 100 (e # stored_history w)) w"
    by (simp add: append_history_returns_iff)
  with a show "load_history w' = JList (e # take 99 (stored_history w))"
    by (simp add: load_history_def read_json_def)
next
  assume a: "append_all es w = (Inr (), w'') \<and> readable (history_file w)
        \<and> history_state_ok w \<and> length (stored_history w) \<le> 100"
  then have "stored_history w'' = take 100 (rev es @ stored_history w) \<and> history_state_ok w''"
    by (intro append_all_returns) simp_all
  then show "load_history w'' = JList (take 100 (rev es @ stored_history w))"
    by (simp add: load_history_stored)
qed

theorem load_history_fails_open_witness:
  "load_history garbled_world = JList []
   \<and> load_history unreadable_world = JList []
   \<and> load_history (set_history (events_upto 3) demo_world) = JList (events_upto 3)
   \<and> append_history (numbered_event 7) garbled_world
        = (Inr (), set_history [numbered_event 7] garbled_world)
   \<and> load_history (set_history [numbered_event 7] garbled_world) = JList [numbered_event 7]
   \<and> append_all (events_upto 3) garbled_world
        = (Inr (), set_history [numbered_event 2, numbered_event 1, numbered_event 0]
                     garbled_world)
   \<and> load_history (set_history [numbered_event 2, numbered_event 1, numbered_event 0]
                      garbled_world)
        = JList [numbered_event 2, numbered_event 1, numbered_event 0]"
proof -
  let ?one = "set_history [numbered_event 7] garbled_world"
  let ?three = "set_history [numbered_event 2, numbered_event 1, numbered_event 0] garbled_world"
  have c: "content (history_file garbled_world) = Corrupt"
    by (simp add: garbled_world_def)
  have u: "\<not> readable (history_file unreadable_world)"
    by (simp add: unreadable_world_def)
  have ok: "history_state_ok garbled_world" "stored_history garbled_world = []"
    "readable (history_file garbled_world)" "on_write (history_file garbled_world) = Completes"
    by (simp_all add: garbled_world_def demo_world_def history_state_ok_def stored_history_def
                      read_json_def)
  have ev: "rev (events_upto 3) = [numbered_event 2, numbered_event 1, numbered_event 0]"
    by (simp add: events_upto_def numbered_event_def upt_rec)
  have a1: "append_history (numbered_event 7) garbled_world = (Inr (), ?one)"
    using ok by (simp add: append_history_ok numbered_event_def)
  have a3: "append_all (events_upto 3) garbled_world = (Inr (), ?three)"
    using ok ev append_all_ok[of garbled_world "events_upto 3"] events_encodable[of 3]
    by (simp add: events_upto_def)
  have 1: "load_history garbled_world = JList []"
    using load_history_fails_open[of garbled_world] c by simp
  have 2: "load_history unreadable_world = JList []"
    using load_history_fails_open[of unreadable_world] u by simp
  have 3: "load_history (set_history (events_upto 3) demo_world) = JList (events_upto 3)"
    using load_history_fails_open
            [of "set_history (events_upto 3) demo_world" "JList (events_upto 3)"]
    by simp
  have 4: "load_history ?one = JList [numbered_event 7]"
    using load_history_fails_open[of garbled_world _ "numbered_event 7" ?one] ok a1 by simp
  have 5: "load_history ?three
             = JList [numbered_event 2, numbered_event 1, numbered_event 0]"
    using load_history_fails_open[of garbled_world _ _ _ "events_upto 3" ?three] ok a3 ev
    by simp
  show ?thesis using 1 2 3 4 5 a1 a3 by simp
qed

section \<open>Catalog cache: load or fetch\<close>

text \<open>
  Claim C6. \<open>get_all_apps\<close> returns the cached document, and writes nothing, when
  the cache file exists, can be read and parses (to anything but \<open>null\<close>, so to every
  catalog). When the file is absent, cannot be read or does not parse, and the listing
  endpoint answers with a status that \<open>raise_for_status\<close> accepts and a JSON object
  whose \<open>applist\<close> is an object, \<open>get_all_apps\<close> takes the \<open>apps\<close> of that
  \<open>applist\<close> (the empty list when there is none), writes it to the cache file, the
  write going through, and returns it; one more call then reads it back from a readable
  file. In particular the list \<open>c\<close> of a body \<open>{"applist": {"apps": c}}\<close> is
  returned and cached.
\<close>

theorem get_all_apps_load_or_fetch:
  "(content (apps_cache w) = Holds v \<and> readable (apps_cache w) \<and> v \<noteq> JNull \<longrightarrow>
      get_all_apps w = (Inr v, w))
   \<and> ((content (apps_cache w) = Absent \<or> content (apps_cache w) = Corrupt
         \<or> \<not> readable (apps_cache w))
        \<and> app_list_reply w = Reply status (Some (JObj body))
        \<and> (status < 400 \<or> 600 \<le> status)
        \<and> dict_get body ''applist'' (JObj []) = JObj listing
        \<and> on_write (apps_cache w) = Completes
      \<longrightarrow> get_all_apps w
            = (Inr (dict_get listing ''apps'' (JList [])),
               w\<lparr>apps_cache :=
                   (apps_cache w)\<lparr>content := Holds (dict_get listing ''apps'' (JList []))\<rparr>\<rparr>)
          \<and> (readable (apps_cache w) \<and> dict_get listing ''apps'' (JList []) \<noteq> JNull \<longrightarrow>
               fst (get_all_apps (snd (get_all_apps w)))
                 = Inr (dict_get listing ''apps'' (JList []))))
   \<and> ((content (apps_cache w) = Absent \<or> content (apps_cache w) = Corrupt
         \<or> \<not> readable (apps_cache w))
        \<and> app_list_reply w = Reply 200 (Some (JObj [(''applist'', JObj [(''apps'', JList c)])]))
        \<and> on_write (apps_cache w) = Completes
      \<longrightarrow> get_all_apps w = (Inr (JList c), set_cache (JList c) w))"
proof (intro conjI impI)
  assume "content (apps_cache w) = Holds v \<and> readable (apps_cache w) \<and> v \<noteq> JNull"
  then show "get_all_apps w = (Inr v, w)"
    by (simp add: get_all_apps_def load_apps_cache_def read_json_def)
next
  assume a: "(content (apps_cache w) = Absent \<or> content (apps_cache w) = Corrupt
         \<or> \<not> readable (apps_cache w))
        \<and> app_list_reply w = Reply status (Some (JObj body))
        \<and> (status < 400 \<or> 600 \<le> status)
        \<and> dict_get body ''applist'' (JObj []) = JObj listing
        \<and> on_write (apps_cache w) = Completes"
  then have miss: "load_apps_cache w = JNull"
    by (auto simp: load_apps_cache_def read_json_def split: content.splits)
  have body: "apps_of_body (JObj body) = Inr (dict_get listing ''apps'' (JList []))"
    using a by (simp add: apps_of_body_def bind_e_def)
  show r: "get_all_apps w
        = (Inr (dict_get listing ''apps'' (JList [])),
           w\<lparr>apps_cache :=
               (apps_cache w)\<lparr>content := Holds (dict_get listing ''apps'' (JList []))\<rparr>\<rparr>)"
    using a miss body
    by (auto simp: get_all_apps_def fetch_and_cache_apps_def save_apps_cache_def)
  assume "readable (apps_cache w) \<and> dict_get listing ''apps'' (JList []) \<noteq> JNull"
  then show "fst (get_all_apps (snd (get_all_apps w)))
               = Inr (dict_get listing ''apps'' (JList []))"
    unfolding r by (simp add: get_all_apps_def load_apps_cache_def read_json_def Let_def)
next
  assume a: "(content (apps_cache w) = Absent \<or> content (apps_cache w) = Corrupt
         \<or> \<not> readable (apps_cache w))
        \<and> app_list_reply w = Reply 200 (Some (JObj [(''applist'', JObj [(''apps'', JList c)])]))
        \<and> on_write (apps_cache w) = Completes"
  then have miss: "load_apps_cache w = JNull"
    by (auto simp: load_apps_cache_def read_json_def split: content.splits)
  have body: "apps_of_body (JObj [(''applist'', JObj [(''apps'', JList c)])]) = Inr (JList c)"
    by (simp add: apps_of_body_def bind_e_def dict_get_def)
  show "get_all_apps w = (Inr (JList c), set_cache (JList c) w)"
    using a miss body
    by (auto simp: get_all_apps_def fetch_and_cache_apps_def save_apps_cache_def set_cache_def)
qed

theorem get_all_apps_load_or_fetch_witness:
  "get_all_apps demo_world = (Inr (JList demo_catalog), demo_world)
   \<and> get_all_apps fresh_world
       = (Inr (JList demo_catalog), set_cache (JList demo_catalog) fresh_world)
   \<and> fst (get_all_apps (snd (get_all_apps fresh_world))) = Inr (JList demo_catalog)"
proof -
  let ?listing = "[(''apps'', JList demo_catalog)]"
  let ?body = "[(''applist'', JObj ?listing)]"
  have 1: "content (apps_cache demo_world) = Holds (JList demo_catalog)"
    "readable (apps_cache demo_world)"
    by (simp_all add: demo_world_def)
  have 2: "content (apps_cache fresh_world) = Corrupt"
    "app_list_reply fresh_world = Reply 200 (Some (JObj ?body))"
    "on_write (apps_cache fresh_world) = Completes" "readable (apps_cache fresh_world)"
    by (simp_all add: fresh_world_def)
  have 3: "dict_get ?body ''applist'' (JObj []) = JObj ?listing"
    "dict_get ?listing ''apps'' (JList []) = JList demo_catalog"
    by (simp_all add: dict_get_def)
  have a: "get_all_apps demo_world = (Inr (JList demo_catalog), demo_world)"
    using get_all_apps_load_or_fetch[where w = demo_world and v = "JList demo_catalog"] 1
    by simp
  have b: "get_all_apps fresh_world
       = (Inr (JList demo_catalog), set_cache (JList demo_catalog) fresh_world)"
    using get_all_apps_load_or_fetch[where w = fresh_world and c = demo_catalog] 2 by simp
  have c: "fst (get_all_apps (snd (get_all_apps fresh_world))) = Inr (JList demo_catalog)"
  proof -
    have p1: "(content (apps_cache fresh_world) = Absent
          \<or> content (apps_cache fresh_world) = Corrupt \<or> \<not> readable (apps_cache fresh_world))
        \<and> app_list_reply fresh_world = Reply 200 (Some (JObj ?body))
        \<and> ((200 :: int) < 400 \<or> 600 \<le> (200 :: int))
        \<and> dict_get ?body ''applist'' (JObj []) = JObj ?listing
        \<and> on_write (apps_cache fresh_world) = Completes"
      using 2 3 by simp
    have p2: "readable (apps_cache fresh_world)
        \<and> dict_get ?listing ''apps'' (JList []) \<noteq> JNull"
      using 2 3 by simp
    from get_all_apps_load_or_fetch
           [where w = fresh_world and status = 200 and body = ?body and listing = ?listing]
         p1 p2
    have "fst (get_all_apps (snd (get_all_apps fresh_world)))
            = Inr (dict_get ?listing ''apps'' (JList []))"
      by blast
    then show ?thesis using 3 by simp
  qed
  show ?thesis using a b c by simp
qed

section \<open>Search\<close>

lemma entry_name_step:
  assumes "entry_name app = Some s"
  shows "py_get app ''name'' (JStr []) = Inr (JStr s)"
  using assms by (auto simp: entry_name_def split: json.splits)

text \<open>
  The loop on a well-formed catalog. The accumulator is empty or shorter than the
  limit whenever the loop is entered; the result is cut at the limit, but never below
  one entry, since the limit is tested only after an append.
\<close>

lemma search_loop_char:
  assumes "well_formed_catalog apps" "ms = [] \<or> int (length ms) < limit"
  shows "search_loop (lower q) limit apps ms
           = Inr (take (max 1 (nat limit)) (ms @ filter (name_matches q) apps))"
  using assms
proof (induction apps arbitrary: ms)
  case Nil
  then show ?case by auto
next
  case (Cons app apps)
  from Cons.prems(1) obtain s where s: "entry_name app = Some s"
    by (auto simp: well_formed_catalog_def)
  have wf: "well_formed_catalog apps"
    using Cons.prems(1) by (simp add: well_formed_catalog_def)
  have g: "py_get app ''name'' (JStr []) = Inr (JStr s)"
    using s by (rule entry_name_step)
  have m: "name_matches q app = sublist (lower q) (lower s)"
    using s by (simp add: name_matches_def)
  show ?case
  proof (cases "sublist (lower q) (lower s)")
    case False
    then show ?thesis
      using g m Cons.IH[OF wf Cons.prems(2)] by simp
  next
    case True
    show ?thesis
    proof (cases "limit \<le> int (length (ms @ [app]))")
      case stop: True
      have "ms @ [app] = take (max 1 (nat limit)) (ms @ app # filter (name_matches q) apps)"
      proof (cases "ms = []")
        case True
        with stop have "max 1 (nat limit) = 1" by auto
        with True show ?thesis by simp
      next
        case False
        with Cons.prems(2) have "int (length ms) < limit" by simp
        with stop have "max 1 (nat limit) = length ms + 1" by auto
        then show ?thesis by simp
      qed
      then show ?thesis using g m True stop by simp
    next
      case go: False
      then have inv: "ms @ [app] = [] \<or> int (length (ms @ [app])) < limit" by simp
      show ?thesis
        using g m True go Cons.IH[OF wf inv] by simp
    qed
  qed
qed

lemma search_apps_char:
  assumes "get_all_apps w = (Inr (JList c), w')" "well_formed_catalog c"
  shows "search_apps q limit w
           = (Inr (take (max 1 (nat limit)) (filter (name_matches q) c)), w')"
  using assms search_loop_char[of c "[]" limit q]
  by (simp add: search_apps_def bind_e_def)

text \<open>
  On ASCII text, where \<open>lower\<close> is \<open>str.lower\<close>: for a limit of at least 1 the
  result is the first \<open>limit\<close> entries, in catalog order, whose lower-cased name
  contains the lower-cased query.
\<close>

lemma search_apps_positive_limit:
  assumes "get_all_apps w = (Inr (JList c), w')" "well_formed_catalog c" "1 \<le> limit"
    "ascii q" "ascii_catalog c"
  shows "search_apps q limit w = (Inr (take (nat limit) (filter (name_matches q) c)), w')"
proof -
  from assms(3) have "max 1 (nat limit) = nat limit" by auto
  then show ?thesis using search_apps_char[OF assms(1,2)] by simp
qed

lemma name_matches_empty:
  "well_formed_catalog c \<Longrightarrow> filter (name_matches []) c = c"
  by (induction c) (auto simp: well_formed_catalog_def name_matches_def lower_def)

lemma demo_catalog_wf: "well_formed_catalog demo_catalog"
  by (simp add: well_formed_catalog_def demo_catalog_def catalog_entry_def entry_name_def
                dict_get_def)

lemma demo_world_apps: "get_all_apps demo_world = (Inr (JList demo_catalog), demo_world)"
  by (simp add: get_all_apps_def load_apps_cache_def read_json_def demo_world_def Let_def)

text \<open>
  Claim C1, at the limit 0. The claim bounds the number of results by the limit for
  every limit. On the catalog Half-Life, Half-Life 2, Portal, the query \<open>half\<close> with
  limit 0 gives one entry: the first match is appended before the limit is looked at.
  (For a limit of at least 1 the result is the first \<open>limit\<close> matches in catalog order:
  \<open>search_apps_positive_limit\<close>.)
\<close>

theorem search_apps_limit_zero:
  "fst (search_apps ''half'' 0 demo_world) = Inr [catalog_entry 1 ''Half-Life'']"
  by code_simp

text \<open>
  Claim C9. \<open>search_apps\<close> does not reject the empty query: on a well-formed catalog
  and a limit above 0 it returns the first \<open>min limit (length catalog)\<close> entries of
  the catalog. The rejection is in the route: a posted query that is empty after
  \<open>strip\<close> gets the prompt, no results, and neither search nor history write.
\<close>

theorem search_apps_empty_query:
  "(get_all_apps w = (Inr (JList c), w') \<and> well_formed_catalog c \<and> 0 < limit \<longrightarrow>
      search_apps [] limit w = (Inr (take (nat limit) c), w')
      \<and> length (take (nat limit) c) = min (nat limit) (length c))
   \<and> (strip (case game_name of None \<Rightarrow> [] | Some s \<Rightarrow> s) = [] \<longrightarrow>
        index_post game_name now w = ((None, [], Some (Inr ''Please enter a game name.'')), w))"
proof (intro conjI impI)
  assume a: "get_all_apps w = (Inr (JList c), w') \<and> well_formed_catalog c \<and> 0 < limit"
  then have "max 1 (nat limit) = nat limit" by auto
  then show "search_apps [] limit w = (Inr (take (nat limit) c), w')"
    using a search_apps_char[of w c w' "[]" limit] by (simp add: name_matches_empty)
  show "length (take (nat limit) c) = min (nat limit) (length c)" by (simp add: min.commute)
next
  assume "strip (case game_name of None \<Rightarrow> [] | Some s \<Rightarrow> s) = []"
  then show "index_post game_name now w
               = ((None, [], Some (Inr ''Please enter a game name.'')), w)"
    by (simp add: index_post_def)
qed

theorem search_apps_empty_query_witness:
  "search_apps [] 2 demo_world
      = (Inr [catalog_entry 1 ''Half-Life'', catalog_entry 2 ''Half-Life 2''], demo_world)
   \<and> index_post (Some ''   '') ''2024-05-01T12:00:00'' demo_world
        = ((None, [], Some (Inr ''Please enter a game name.'')), demo_world)"
proof -
  have s: "strip (case Some ''   '' of None \<Rightarrow> [] | Some s \<Rightarrow> s) = []"
    by code_simp
  have t: "take (nat 2) demo_catalog
             = [catalog_entry 1 ''Half-Life'', catalog_entry 2 ''Half-Life 2'']"
    by (simp add: demo_catalog_def)
  show ?thesis
    using search_apps_empty_query[of demo_world demo_catalog demo_world 2 "Some ''   ''"
                                     "''2024-05-01T12:00:00''"]
          demo_catalog_wf demo_world_apps s t
    by simp
qed

section \<open>Details\<close>

subsection \<open>When \<open>get_app_details\<close> returns absent, and when it raises\<close>

lemma get_app_details_not_200:
  assumes "app_details_reply w appid = Reply status body" "status \<noteq> 200"
  shows "get_app_details appid w = Inr JNull"
  using assms by (simp add: get_app_details_def)

lemma get_app_details_success_false:
  assumes "app_details_reply w appid = Reply 200 (Some (JObj body))"
    and "dict_get body (str_int appid) (JObj []) = JObj dat"
    and "\<not> truthy (dict_get dat ''success'' JNull)"
  shows "get_app_details appid w = Inr JNull"
  using assms by (simp add: get_app_details_def bind_e_def)

lemma select_absent:
  assumes "get_app_details appid w = Inr JNull"
  shows "select appid now w = (Inr (Plain ''Could not fetch details for that app.'' 500), w)"
  using assms by (simp add: select_def)

lemma get_app_details_network_failure:
  assumes "app_details_reply w appid = Failure"
  shows "get_app_details appid w = Inl ConnectionError"
    and "select appid now w = (Inl ConnectionError, w)"
  using assms by (simp_all add: get_app_details_def select_def)

text \<open>
  Claim C3, at a network failure. The claim has \<open>get_app_details\<close> return absent
  when the request fails, and the caller show an error. With the details request
  failing, \<open>get_app_details 570\<close> raises and \<open>select\<close> lets the exception through;
  the sibling route \<open>refresh_cache\<close> catches the failure of its own request and
  answers with a text and status 500. (On a status other than 200 and on a false
  success flag \<open>get_app_details\<close> does return absent, and \<open>select\<close> answers with its
  message: \<open>get_app_details_not_200\<close>, \<open>get_app_details_success_false\<close>,
  \<open>select_absent\<close>.)
\<close>

theorem details_network_failure_raises:
  "get_app_details 570 demo_world = Inl ConnectionError
   \<and> fst (select 570 ''2024-05-01T12:00:00'' demo_world) = Inl ConnectionError
   \<and> fst (refresh_cache demo_world) = Caught ConnectionError 500"
  by (simp add: get_app_details_def select_def refresh_cache_def fetch_and_cache_apps_def
                demo_world_def)

subsection \<open>The header image\<close>

lemma header_image_of_primary:
  assumes "truthy (dict_get info ''header_image'' JNull)"
  shows "header_image_of (JObj info) = Inr (dict_get info ''header_image'' JNull)"
  using assms by (simp add: header_image_of_def bind_e_def)

lemma header_image_of_no_screenshots:
  assumes "\<not> truthy (dict_get info ''header_image'' JNull)"
    and "map_of info ''screenshots'' = None"
  shows "header_image_of (JObj info) = Inr (JStr [])"
  using assms by (simp add: header_image_of_def bind_e_def dict_get_def)

lemma header_image_of_first_screenshot:
  assumes "\<not> truthy (dict_get info ''header_image'' JNull)"
    and "map_of info ''screenshots'' = Some (JList (JObj shot # shots))"
  shows "header_image_of (JObj info) =
           Inr (if truthy (dict_get shot ''path_full'' JNull)
                then dict_get shot ''path_full'' JNull else JStr [])"
  using assms by (simp add: header_image_of_def bind_e_def dict_get_def)

lemma header_image_of_empty_screenshots:
  assumes "\<not> truthy (dict_get info ''header_image'' JNull)"
    and "map_of info ''screenshots'' = Some (JList [])"
  shows "header_image_of (JObj info) = Inl IndexError"
  using assms by (simp add: header_image_of_def bind_e_def dict_get_def)

text \<open>
  Claim C4, at a present but empty screenshot list. The claim has the header image
  be the empty string there. For the successful response whose data are a name,
  \<open>is_free\<close> and \<open>"screenshots": []\<close>, \<open>get_app_details 570\<close> returns no result:
  indexing the empty list raises. (The default \<open>[{}]\<close> covers only a missing
  \<open>screenshots\<close> key: \<open>header_image_of_no_screenshots\<close>.)
\<close>

theorem header_image_empty_screenshots_raises:
  "get_app_details 570 (details_world no_shots_info) = Inl IndexError"
  by code_simp

subsection \<open>The price\<close>

lemma dict_get_truthy_default:
  "truthy (dict_get d k JNull) \<Longrightarrow> dict_get d k (JObj []) = dict_get d k JNull"
  by (auto simp: dict_get_def split: option.splits)

lemma price_of_char:
  "price_of (JObj info) =
     (if truthy (dict_get info ''price_overview'' JNull)
      then py_get (dict_get info ''price_overview'' JNull) ''final_formatted'' JNull
      else Inr (free_or_na info))"
  by (simp add: price_of_def bind_e_def free_or_na_def dict_get_truthy_default)

lemma price_of_spec:
  assumes "price_of (JObj info) = Inr p"
  shows "p = spec_price info"
proof (cases "truthy (dict_get info ''price_overview'' JNull)")
  case True
  then show ?thesis
    using assms by (cases "dict_get info ''price_overview'' JNull")
                   (auto simp: price_of_char spec_price_def)
next
  case False
  then show ?thesis
    using assms by (cases "dict_get info ''price_overview'' JNull")
                   (auto simp: price_of_char spec_price_def)
qed

lemma price_of_total:
  assumes "(\<exists>block. dict_get info ''price_overview'' JNull = JObj block)
           \<or> \<not> truthy (dict_get info ''price_overview'' JNull)"
  shows "price_of (JObj info) = Inr (spec_price info)"
proof (cases "dict_get info ''price_overview'' JNull")
  case (JObj block)
  then show ?thesis by (simp add: price_of_char spec_price_def)
qed (use assms in \<open>simp_all add: price_of_char spec_price_def\<close>)

text \<open>A successful response: the result dict in terms of the three derived fields.\<close>

lemma get_app_details_success:
  assumes "app_details_reply w appid = Reply 200 (Some (JObj body))"
    and "dict_get body (str_int appid) (JObj []) = JObj dat"
    and "truthy (dict_get dat ''success'' JNull)"
    and "dict_get dat ''data'' (JObj []) = JObj info"
  shows "get_app_details appid w =
     bind_e (price_of (JObj info)) (\<lambda>price.
     bind_e (rating_of (JObj info)) (\<lambda>rating.
     bind_e (header_image_of (JObj info)) (\<lambda>header_image.
       Inr (JObj
         [(''appid'', JInt appid),
          (''name'', dict_get info ''name'' (JStr ''Unknown'')),
          (''description'',
             dict_get info ''short_description'' (JStr ''No description available.'')),
          (''is_free'', dict_get info ''is_free'' (JBool False)),
          (''price'', price),
          (''rating'', rating),
          (''header_image'', header_image),
          (''steam_url'', JStr (''https://store.steampowered.com/app/'' @ str_int appid))]))))"
  using assms by (simp add: get_app_details_def bind_e_def)

text \<open>
  Claim C5. For every successful details response (status 200, a true success flag,
  a \<open>data\<close> dict) on which \<open>get_app_details\<close> returns a result, the result's price
  is the price block's \<open>final_formatted\<close> when \<open>price_overview\<close> is a non-empty block,
  else \<open>Free\<close> when \<open>is_free\<close> is true, else \<open>N/A\<close>. The price expression itself
  returns that value whenever \<open>price_overview\<close> is a dict or is false (missing, null,
  empty).
\<close>

theorem price_field:
  "(app_details_reply w appid = Reply 200 (Some (JObj body))
     \<and> dict_get body (str_int appid) (JObj []) = JObj dat
     \<and> truthy (dict_get dat ''success'' JNull)
     \<and> dict_get dat ''data'' (JObj []) = JObj info
     \<and> get_app_details appid w = Inr r
     \<longrightarrow> py_get r ''price'' JNull = Inr (spec_price info))
   \<and> ((\<exists>block. dict_get info ''price_overview'' JNull = JObj block)
        \<or> \<not> truthy (dict_get info ''price_overview'' JNull)
      \<longrightarrow> price_of (JObj info) = Inr (spec_price info))"
proof (intro conjI impI)
  assume a: "app_details_reply w appid = Reply 200 (Some (JObj body))
     \<and> dict_get body (str_int appid) (JObj []) = JObj dat
     \<and> truthy (dict_get dat ''success'' JNull)
     \<and> dict_get dat ''data'' (JObj []) = JObj info
     \<and> get_app_details appid w = Inr r"
  then have eq: "get_app_details appid w =
     bind_e (price_of (JObj info)) (\<lambda>price.
     bind_e (rating_of (JObj info)) (\<lambda>rating.
     bind_e (header_image_of (JObj info)) (\<lambda>header_image.
       Inr (JObj
         [(''appid'', JInt appid),
          (''name'', dict_get info ''name'' (JStr ''Unknown'')),
          (''description'',
             dict_get info ''short_description'' (JStr ''No description available.'')),
          (''is_free'', dict_get info ''is_free'' (JBool False)),
          (''price'', price),
          (''rating'', rating),
          (''header_image'', header_image),
          (''steam_url'', JStr (''https://store.steampowered.com/app/'' @ str_int appid))]))))"
    using get_app_details_success[of w appid body dat info] by simp
  from a have r: "get_app_details appid w = Inr r" by simp
  obtain p where p: "price_of (JObj info) = Inr p"
    using r eq by (cases "price_of (JObj info)") (auto simp: bind_e_def)
  then have "py_get r ''price'' JNull = Inr p"
    using r eq by (auto simp: bind_e_def dict_get_def split: sum.splits)
  then show "py_get r ''price'' JNull = Inr (spec_price info)"
    using price_of_spec[OF p] by simp
next
  assume "(\<exists>block. dict_get info ''price_overview'' JNull = JObj block)
        \<or> \<not> truthy (dict_get info ''price_overview'' JNull)"
  then show "price_of (JObj info) = Inr (spec_price info)" by (rule price_of_total)
qed

theorem price_field_witness:
  "(\<exists>r. get_app_details 570 (details_world free_info) = Inr r
        \<and> py_get r ''price'' JNull = Inr (JStr ''Free''))
   \<and> (\<exists>r. get_app_details 570 (details_world priced_info) = Inr r
        \<and> py_get r ''price'' JNull = Inr (JStr ''$9.99''))
   \<and> price_of (JObj priced_info) = Inr (JStr ''$9.99'')"
proof -
  have reply: "\<And>info. app_details_reply (details_world info) 570
      = Reply 200 (Some (JObj [(''570'', JObj [(''success'', JBool True), (''data'', JObj info)])]))"
    by (simp add: details_world_def details_body_def)
  have key: "str_int 570 = ''570''" by code_simp
  have dat: "\<And>info. dict_get [(''570'', JObj [(''success'', JBool True), (''data'', JObj info)])]
               (str_int 570) (JObj [])
             = JObj [(''success'', JBool True), (''data'', JObj info)]"
    by (simp add: key dict_get_def)
  have flag: "\<And>info. truthy (dict_get [(''success'', JBool True), (''data'', JObj info)]
                                  ''success'' JNull)"
    by (simp add: dict_get_def)
  have inf: "\<And>info. dict_get [(''success'', JBool True), (''data'', JObj info)]
                        ''data'' (JObj []) = JObj info"
    by (simp add: dict_get_def)
  obtain r1 where r1: "get_app_details 570 (details_world free_info) = Inr r1"
    by (cases "get_app_details 570 (details_world free_info)") (code_simp, blast)
  obtain r2 where r2: "get_app_details 570 (details_world priced_info) = Inr r2"
    by (cases "get_app_details 570 (details_world priced_info)") (code_simp, blast)
  have s1: "spec_price free_info = JStr ''Free''"
    by (simp add: spec_price_def free_or_na_def free_info_def dict_get_def)
  have s2: "spec_price priced_info = JStr ''$9.99''"
    by (simp add: spec_price_def priced_info_def dict_get_def)
  have b: "\<exists>block. dict_get priced_info ''price_overview'' JNull = JObj block"
    by (simp add: priced_info_def dict_get_def)
  have 1: "py_get r1 ''price'' JNull = Inr (JStr ''Free'')"
    using price_field[of "details_world free_info" 570
            "[(''570'', JObj [(''success'', JBool True), (''data'', JObj free_info)])]"
            "[(''success'', JBool True), (''data'', JObj free_info)]" free_info r1]
          reply[of free_info] dat[of free_info] flag[of free_info] inf[of free_info] r1 s1
    by simp
  have 2: "py_get r2 ''price'' JNull = Inr (JStr ''$9.99'')"
    using price_field[of "details_world priced_info" 570
            "[(''570'', JObj [(''success'', JBool True), (''data'', JObj priced_info)])]"
            "[(''success'', JBool True), (''data'', JObj priced_info)]" priced_info r2]
          reply[of priced_info] dat[of priced_info] flag[of priced_info] inf[of priced_info]
          r2 s2
    by simp
  have 3: "price_of (JObj priced_info) = Inr (JStr ''$9.99'')"
    using price_field[of _ _ _ _ priced_info] b s2 by simp
  show ?thesis using r1 r2 1 2 3 by simp
qed

end
